theory Spec2Isabelle
  imports Main "HOL-Library.Sublist"
begin

section \<open>Values exchanged with the collaborators\<close>

text \<open>
  The two orchestrators, \<^verbatim>\<open>CodeChangesChatAgent\<close> and \<^verbatim>\<open>CustomAgent\<close>, are coroutines
  that call external services and yield strings. Every call of a service is recorded as
  an effect in a trace, in program order; what the service answers is read from an
  environment record. An exception is a value: each operation returns \<open>exn + 'a\<close>, with
  \<open>Inl\<close> for a raise. Only subclasses of \<^verbatim>\<open>Exception\<close> are modelled (the handlers of the
  source catch nothing else); strings are ASCII.
\<close>

datatype exn_class =
  TimeoutError | AttributeError | ValueError | TypeError | RuntimeError | PlainException

datatype exn = Exn (exn_cls: exn_class) (str_exn: string)

type_synonym model_handle = nat

datatype role = Human | System | AI

datatype message = Message (msg_role: role) (content: string)

text \<open>
  A history entry is a typed message or a primitive. \<^verbatim>\<open>isinstance(msg, (str, int, float))\<close>
  also accepts \<^verbatim>\<open>bool\<close>, a subclass of \<^verbatim>\<open>int\<close>. A float is represented by its printed
  form, which is all the source reads of it.
\<close>

datatype primitive = PyStr string | PyInt int | PyBool bool | PyFloat string

datatype hist_entry = Prim primitive | Msg message

definition digit_chars :: string where
  "digit_chars = ''0123456789''"

fun str_nat :: "nat \<Rightarrow> string" where
  "str_nat n = (if n < 10 then [digit_chars ! n] else str_nat (n div 10) @ [digit_chars ! (n mod 10)])"

declare str_nat.simps [simp del]

definition str_int :: "int \<Rightarrow> string" where
  "str_int i = (if i < 0 then CHR ''-'' # str_nat (nat (- i)) else str_nat (nat i))"

fun py_str :: "primitive \<Rightarrow> string" where
  "py_str (PyStr s) = s"
| "py_str (PyInt i) = str_int i"
| "py_str (PyBool b) = (if b then ''True'' else ''False'')"
| "py_str (PyFloat r) = r"

text \<open>\<^verbatim>\<open>HumanMessage(content=str(msg)) if isinstance(msg, (str, int, float)) else msg\<close>\<close>

fun validate_entry :: "hist_entry \<Rightarrow> hist_entry" where
  "validate_entry (Prim p) = Msg (Message Human (py_str p))"
| "validate_entry (Msg m) = Msg m"

definition validated_history :: "hist_entry list \<Rightarrow> hist_entry list" where
  "validated_history history = map validate_entry history"


section \<open>Collaborators\<close>

text \<open>
  The types below are declared outside the two source files; their shape is read off
  the way the source uses them. \<open>classification_result\<close> has the two members the
  specification names.
\<close>

datatype prompt_type = SYSTEM | HUMAN

datatype prompt_response = PromptResponse (ptype: prompt_type) (prompt_text: string)

datatype classification_result = AGENT_REQUIRED | NO_AGENT_REQUIRED

datatype blast_radius_response = BlastRadiusResponse (citations: "string list") (response: string)

datatype crew_output = CrewOutput (pydantic: "blast_radius_response option") (raw: string)

text \<open>
  The custom agent's result is only ever passed to \<^verbatim>\<open>json.dumps\<close>: it is represented by
  the JSON text it serialises to, or by the name of its type when it does not serialise.
\<close>

datatype agent_result = Serializable string | Unserializable string

text \<open>
  A chunk of the model's stream either has a \<^verbatim>\<open>content\<close> attribute (a string, or
  something else, given by the name of its type) or only a string form. The stream is
  finite and ends normally or by raising.
\<close>

datatype chunk_content = Text string | NonText string

datatype chunk = WithContent chunk_content | NoContent string

datatype stream = StreamEnd | StreamRaise exn | StreamChunk chunk stream

datatype chain =
  Chain (chain_system: string) (chain_human: "string option") (chain_llm: model_handle)

datatype chain_inputs =
  ChainInputs (in_history: "hist_entry list") (in_tool_results: "message list") (in_input: string)

datatype message_type = AI_GENERATED | OTHER_MESSAGE_TYPE

text \<open>
  What a run yields: \<^verbatim>\<open>json.dumps\<close> of a dictionary with the keys \<^verbatim>\<open>citations\<close> and
  \<^verbatim>\<open>message\<close>, kept structured, or the plain text of the error handler.
\<close>

datatype yielded = JsonEvent "string list" string | ErrorText string

datatype acquire_outcome = Acquired | TimedOut | AcquireRaised exn

datatype effect =
    EvGetPrompts
  | EvGetSystemPrompt
  | EvAcquire nat
  | EvGetSmallLlm
  | EvHandleQuotaExceeded
  | EvGetSessionHistory string string
  | EvClassify model_handle string "string list"
  | EvBlastRadius string string "string list" string model_handle
  | EvFormatCitations "string list"
  | EvRunAgent string string string string "string list"
  | EvAstream chain chain_inputs
  | EvAddChunk string string message_type "string list option"
  | EvAddChunkRaised string string message_type "string list option"
  | EvFlush string message_type
  | EvYield yielded

text \<open>
  The answers of the services during one run. \<open>acquire\<close> is the outcome of
  \<^verbatim>\<open>asyncio.wait_for(self.llm_rate_limiter.acquire(), ...)\<close>; \<open>add_message_chunk k\<close>
  says whether the call for the \<open>k\<close>-th chunk of the run raises; \<open>get_system_prompt\<close>
  is what \<^verbatim>\<open>_get_system_prompt\<close> answers on an instance that has such a method.
\<close>

record env =
  get_prompts_by_agent_id_and_types :: "exn + prompt_response list"
  get_system_prompt :: "exn + string option"
  acquire :: acquire_outcome
  get_small_llm :: "exn + model_handle"
  get_session_history :: "string \<Rightarrow> string \<Rightarrow> exn + hist_entry list"
  classification_ainvoke :: "model_handle \<Rightarrow> string \<Rightarrow> string list \<Rightarrow> exn + classification_result"
  kickoff_blast_radius_agent ::
    "string \<Rightarrow> string \<Rightarrow> string list \<Rightarrow> string \<Rightarrow> model_handle \<Rightarrow> exn + crew_output"
  format_citations :: "string list \<Rightarrow> exn + string list"
  run_agent :: "string \<Rightarrow> string \<Rightarrow> string \<Rightarrow> string \<Rightarrow> string list \<Rightarrow> exn + agent_result"
  astream :: "chain \<Rightarrow> chain_inputs \<Rightarrow> stream"
  add_message_chunk :: "nat \<Rightarrow> exn option"
  flush_message_buffer :: "exn option"

record run_args =
  query :: string
  project_id :: string
  user_id :: string
  conversation_id :: string
  node_ids :: "string list"

text \<open>Sequencing of two steps: the second runs only if the first did not raise.\<close>

definition then_do ::
  "effect list \<times> (exn + 'a) \<Rightarrow> ('a \<Rightarrow> effect list \<times> (exn + 'b)) \<Rightarrow> effect list \<times> (exn + 'b)" where
  "then_do m f =
     (case m of
        (tr, Inl e) \<Rightarrow> (tr, Inl e)
      | (tr, Inr x) \<Rightarrow> (case f x of (tr', r) \<Rightarrow> (tr @ tr', r)))"

definition quoted :: "string \<Rightarrow> string" where
  "quoted s = CHR 0x27 # s @ [CHR 0x27]"

definition no_attribute :: "string \<Rightarrow> string \<Rightarrow> exn" where
  "no_attribute cls attr =
     Exn AttributeError (quoted cls @ '' object has no attribute '' @ quoted attr)"

section \<open>CodeChangesChatAgent\<close>

text \<open>
  The instance. \<open>cc_llm_cached\<close> is \<^verbatim>\<open>self._llm\<close>. \<open>cc_llm\<close> is the attribute
  \<^verbatim>\<open>self.llm\<close> that \<^verbatim>\<open>_classify_query\<close> reads: \<^verbatim>\<open>__init__\<close> takes a parameter \<^verbatim>\<open>llm\<close>
  and never stores it, so the attribute exists only if something outside the class has
  set it. \<open>cc_ident\<close> is the identity of the object, the key under which
  \<^verbatim>\<open>lru_cache\<close> files the call \<^verbatim>\<open>_get_prompts(self)\<close>.
\<close>

record code_changes_agent =
  cc_ident :: nat
  cc_mini_llm :: model_handle
  cc_llm_cached :: "model_handle option"
  cc_llm :: "model_handle option"
  cc_chain :: "chain option"

definition cc_init :: "nat \<Rightarrow> model_handle \<Rightarrow> model_handle \<Rightarrow> code_changes_agent" where
  "cc_init ident mini_llm llm =
     \<lparr>cc_ident = ident, cc_mini_llm = mini_llm, cc_llm_cached = None, cc_llm = None,
      cc_chain = None\<rparr>"

definition lower_char :: "char \<Rightarrow> char" where
  "lower_char c =
     (let n = (of_char c :: nat) in if 65 \<le> n \<and> n \<le> 90 then char_of (n + 32) else c)"

definition lower :: "string \<Rightarrow> string" where
  "lower s = map lower_char s"

text \<open>\<^verbatim>\<open>"429" in str(e) or "quota exceeded" in str(e).lower()\<close>\<close>

definition quota_related :: "exn \<Rightarrow> bool" where
  "quota_related e \<longleftrightarrow>
     sublist ''429'' (str_exn e) \<or> sublist ''quota exceeded'' (lower (str_exn e))"

definition service_overloaded :: exn where
  "service_overloaded = Exn PlainException ''Service is currently overloaded. Please try again later.''"

text \<open>The body of the \<^verbatim>\<open>try\<close> of \<^verbatim>\<open>_get_llm\<close>: the limiter is awaited before the cache is read.\<close>

definition cc_get_llm_try ::
  "env \<Rightarrow> code_changes_agent \<Rightarrow> code_changes_agent \<times> effect list \<times> (exn + model_handle)" where
  "cc_get_llm_try env self =
     (case acquire env of
        TimedOut \<Rightarrow> (self, [EvAcquire 30], Inl (Exn TimeoutError []))
      | AcquireRaised e \<Rightarrow> (self, [EvAcquire 30], Inl e)
      | Acquired \<Rightarrow>
          (case cc_llm_cached self of
             Some llm \<Rightarrow> (self, [EvAcquire 30], Inr llm)
           | None \<Rightarrow>
               (case get_small_llm env of
                  Inl e \<Rightarrow> (self, [EvAcquire 30, EvGetSmallLlm], Inl e)
                | Inr llm \<Rightarrow>
                    (self\<lparr>cc_llm_cached := Some llm\<rparr>, [EvAcquire 30, EvGetSmallLlm], Inr llm))))"

definition cc_get_llm ::
  "env \<Rightarrow> code_changes_agent \<Rightarrow> code_changes_agent \<times> effect list \<times> (exn + model_handle)" where
  "cc_get_llm env self =
     (case cc_get_llm_try env self of
        (self', tr, Inr llm) \<Rightarrow> (self', tr, Inr llm)
      | (self', tr, Inl e) \<Rightarrow>
          if exn_cls e = TimeoutError then (self', tr, Inl service_overloaded)
          else if quota_related e then (self', tr @ [EvHandleQuotaExceeded], Inl e)
          else (self', tr, Inl e))"

text \<open>
  \<^verbatim>\<open>@lru_cache(maxsize=2)\<close> on the coroutine function \<^verbatim>\<open>_get_prompts\<close>: the cache is shared
  by all instances, keyed by the instance, most recently used first. What it stores is
  the coroutine object; the source awaits it at once, so a hit hands back a coroutine
  that has already been awaited, and awaiting it again raises.
\<close>

definition lru_cache_call :: "nat \<Rightarrow> nat list \<Rightarrow> bool \<times> nat list" where
  "lru_cache_call k cache =
     (if k \<in> set cache then (True, k # remove1 k cache) else (False, take 2 (k # cache)))"

definition prompt_dict :: "prompt_response list \<Rightarrow> (prompt_type \<rightharpoonup> prompt_response)" where
  "prompt_dict prompts = foldl (\<lambda>d p. d(ptype p \<mapsto> p)) Map.empty prompts"

definition cc_get_prompts ::
  "env \<Rightarrow> nat list \<Rightarrow> code_changes_agent \<Rightarrow>
     nat list \<times> effect list \<times> (exn + (prompt_type \<rightharpoonup> prompt_response))" where
  "cc_get_prompts env cache self =
     (case lru_cache_call (cc_ident self) cache of
        (True, cache') \<Rightarrow>
          (cache', [], Inl (Exn RuntimeError ''cannot reuse already awaited coroutine''))
      | (False, cache') \<Rightarrow>
          (cache', [EvGetPrompts],
           case get_prompts_by_agent_id_and_types env of
             Inl e \<Rightarrow> Inl e
           | Inr prompts \<Rightarrow> Inr (prompt_dict prompts)))"

definition prompts_not_found :: exn where
  "prompts_not_found = Exn ValueError ''Required prompts not found for CODE_CHANGES_AGENT''"

definition cc_create_chain ::
  "env \<Rightarrow> nat list \<Rightarrow> code_changes_agent \<Rightarrow>
     nat list \<times> code_changes_agent \<times> effect list \<times> (exn + chain)" where
  "cc_create_chain env cache self =
     (case cc_get_prompts env cache self of
        (cache', tr, Inl e) \<Rightarrow> (cache', self, tr, Inl e)
      | (cache', tr, Inr prompts) \<Rightarrow>
          (case prompts SYSTEM of
             None \<Rightarrow> (cache', self, tr, Inl prompts_not_found)
           | Some system_prompt \<Rightarrow>
               (case prompts HUMAN of
                  None \<Rightarrow> (cache', self, tr, Inl prompts_not_found)
                | Some human_prompt \<Rightarrow>
                    (case cc_get_llm env self of
                       (self', tr', Inl e) \<Rightarrow> (cache', self', tr @ tr', Inl e)
                     | (self', tr', Inr llm) \<Rightarrow>
                         (cache', self', tr @ tr',
                          Inr (Chain (prompt_text system_prompt)
                                 (Some (prompt_text human_prompt)) llm))))))"

fun type_name :: "primitive \<Rightarrow> string" where
  "type_name (PyStr _) = ''str''"
| "type_name (PyInt _) = ''int''"
| "type_name (PyBool _) = ''bool''"
| "type_name (PyFloat _) = ''float''"

fun entry_content :: "hist_entry \<Rightarrow> exn + string" where
  "entry_content (Msg m) = Inr (content m)"
| "entry_content (Prim p) = Inl (no_attribute (type_name p) ''content'')"

text \<open>\<^verbatim>\<open>[msg.content for msg in history[-5:]]\<close>\<close>

fun contents :: "hist_entry list \<Rightarrow> exn + string list" where
  "contents [] = Inr []"
| "contents (m # ms) =
     (case entry_content m of
        Inl e \<Rightarrow> Inl e
      | Inr c \<Rightarrow> (case contents ms of Inl e \<Rightarrow> Inl e | Inr cs \<Rightarrow> Inr (c # cs)))"

definition last5 :: "'a list \<Rightarrow> 'a list" where
  "last5 xs = drop (length xs - 5) xs"

definition cc_classify_query ::
  "env \<Rightarrow> code_changes_agent \<Rightarrow> string \<Rightarrow> hist_entry list \<Rightarrow>
     effect list \<times> (exn + classification_result)" where
  "cc_classify_query env self q history =
     (case contents (last5 history) of
        Inl e \<Rightarrow> ([], Inl e)
      | Inr recent \<Rightarrow>
          (case cc_llm self of
             None \<Rightarrow> ([], Inl (no_attribute ''CodeChangesChatAgent'' ''llm''))
           | Some llm \<Rightarrow> ([EvClassify llm q recent], classification_ainvoke env llm q recent)))"

text \<open>The tool step: the blast radius agent runs only under \<open>AGENT_REQUIRED\<close>.\<close>

definition cc_tool_step ::
  "env \<Rightarrow> code_changes_agent \<Rightarrow> run_args \<Rightarrow> classification_result \<Rightarrow>
     effect list \<times> (exn + message list \<times> string list)" where
  "cc_tool_step env self a classification =
     (if classification = AGENT_REQUIRED then
        ([EvBlastRadius (query a) (project_id a) (node_ids a) (user_id a) (cc_mini_llm self)],
         case kickoff_blast_radius_agent env (query a) (project_id a) (node_ids a) (user_id a)
                (cc_mini_llm self) of
           Inl e \<Rightarrow> Inl e
         | Inr blast_radius_result \<Rightarrow>
             (case pydantic blast_radius_result of
                Some p \<Rightarrow>
                  Inr ([Message System (''Blast Radius Agent result: '' @ response p)],
                       citations p)
              | None \<Rightarrow>
                  Inr ([Message System
                          (''Blast Radius Agent result: '' @ raw blast_radius_result)], [])))
      else ([], Inr ([], [])))"


text \<open>
  What the run has in hand when it starts to stream: the inputs of the chain, the
  classification, and the citations after \<^verbatim>\<open>format_citations\<close>.
\<close>

datatype prepared =
  Prepared (p_inputs: chain_inputs) (p_classification: classification_result)
    (p_citations: "string list")

text \<open>Lines 126 to 170 of \<^verbatim>\<open>run\<close>: history, validation, classification, tool, formatting.\<close>

definition cc_prepare ::
  "env \<Rightarrow> code_changes_agent \<Rightarrow> run_args \<Rightarrow> effect list \<times> (exn + prepared)" where
  "cc_prepare env self a =
     then_do ([EvGetSessionHistory (user_id a) (conversation_id a)],
              get_session_history env (user_id a) (conversation_id a)) (\<lambda>history.
     then_do (cc_classify_query env self (query a) (validated_history history)) (\<lambda>classification.
     then_do (cc_tool_step env self a classification) (\<lambda>(tool_results, cits).
     then_do ([EvFormatCitations cits], format_citations env cits) (\<lambda>cits'.
       ([], Inr (Prepared (ChainInputs (validated_history history) tool_results (query a))
                   classification cits'))))))"

section \<open>The streaming loop\<close>

text \<open>\<^verbatim>\<open>content = chunk.content if hasattr(chunk, "content") else str(chunk)\<close>, as far as
  \<^verbatim>\<open>full_response += content\<close> accepts it.\<close>

fun chunk_text :: "chunk \<Rightarrow> exn + string" where
  "chunk_text (WithContent (Text s)) = Inr s"
| "chunk_text (WithContent (NonText ty)) =
     Inl (Exn TypeError
           (''can only concatenate str (not '' @ [CHR 0x22] @ ty @ [CHR 0x22] @ '') to str''))"
| "chunk_text (NoContent s) = Inr s"

text \<open>
  The \<^verbatim>\<open>async for\<close> of both agents. \<open>wc\<close> is the \<^verbatim>\<open>citations\<close> argument of
  \<^verbatim>\<open>add_message_chunk\<close> (\<open>None\<close> where the source passes \<^verbatim>\<open>None\<close> or nothing), \<open>ec\<close> the
  citations put into each event, \<open>k\<close> the number of chunks handled so far, \<open>full\<close> the
  accumulator \<^verbatim>\<open>full_response\<close>. The result is the accumulator at the end of the stream.
\<close>

fun stream_chunks ::
  "env \<Rightarrow> string \<Rightarrow> string list option \<Rightarrow> string list \<Rightarrow> nat \<Rightarrow> string \<Rightarrow> stream \<Rightarrow>
     effect list \<times> (exn + string)" where
  "stream_chunks env conv wc ec k full StreamEnd = ([], Inr full)"
| "stream_chunks env conv wc ec k full (StreamRaise e) = ([], Inl e)"
| "stream_chunks env conv wc ec k full (StreamChunk c rest) =
     (case chunk_text c of
        Inl e \<Rightarrow> ([], Inl e)
      | Inr fragment \<Rightarrow>
          (case add_message_chunk env k of
             Some e \<Rightarrow> ([EvAddChunkRaised conv fragment AI_GENERATED wc], Inl e)
           | None \<Rightarrow>
               (case stream_chunks env conv wc ec (Suc k) (full @ fragment) rest of
                  (tr, r) \<Rightarrow>
                    (EvAddChunk conv fragment AI_GENERATED wc
                       # EvYield (JsonEvent ec fragment) # tr, r))))"

definition stream_and_flush ::
  "env \<Rightarrow> string \<Rightarrow> string list option \<Rightarrow> string list \<Rightarrow> chain \<Rightarrow> chain_inputs \<Rightarrow>
     effect list \<times> (exn + string)" where
  "stream_and_flush env conv wc ec ch inputs =
     then_do (case stream_chunks env conv wc ec 0 [] (astream env ch inputs) of
                (tr, r) \<Rightarrow> (EvAstream ch inputs # tr, r)) (\<lambda>full_response.
       ([EvFlush conv AI_GENERATED],
        case flush_message_buffer env of Some e \<Rightarrow> Inl e | None \<Rightarrow> Inr full_response))"

section \<open>CodeChangesChatAgent.run\<close>

text \<open>\<^verbatim>\<open>if not self.chain: self.chain = await self._create_chain()\<close>\<close>

definition cc_ensure_chain ::
  "env \<Rightarrow> nat list \<Rightarrow> code_changes_agent \<Rightarrow>
     nat list \<times> code_changes_agent \<times> effect list \<times> (exn + chain)" where
  "cc_ensure_chain env cache self =
     (case cc_chain self of
        Some ch \<Rightarrow> (cache, self, [], Inr ch)
      | None \<Rightarrow>
          (case cc_create_chain env cache self of
             (cache', self', tr, Inl e) \<Rightarrow> (cache', self', tr, Inl e)
           | (cache', self', tr, Inr ch) \<Rightarrow> (cache', self'\<lparr>cc_chain := Some ch\<rparr>, tr, Inr ch)))"

text \<open>
  The \<^verbatim>\<open>try\<close> block of \<^verbatim>\<open>run\<close>. It returns the prompt cache, the instance, the trace and
  either the exception that left the block or the accumulator \<^verbatim>\<open>full_response\<close>.
\<close>

definition cc_run_body ::
  "env \<Rightarrow> nat list \<Rightarrow> code_changes_agent \<Rightarrow> run_args \<Rightarrow>
     nat list \<times> code_changes_agent \<times> effect list \<times> (exn + string)" where
  "cc_run_body env cache self a =
     (case cc_ensure_chain env cache self of
        (cache', self', tr, Inl e) \<Rightarrow> (cache', self', tr, Inl e)
      | (cache', self', tr, Inr ch) \<Rightarrow>
          (case then_do (cc_prepare env self' a) (\<lambda>p.
                  stream_and_flush env (conversation_id a)
                    (if p_classification p = AGENT_REQUIRED then Some (p_citations p) else None)
                    (if p_classification p = AGENT_REQUIRED then p_citations p else [])
                    ch (p_inputs p)) of
             (tr', r) \<Rightarrow> (cache', self', tr @ tr', r)))"

text \<open>\<^verbatim>\<open>except Exception as e: yield f"An error occurred: {str(e)}"\<close>\<close>

definition error_event :: "exn \<Rightarrow> yielded" where
  "error_event e = ErrorText (''An error occurred: '' @ str_exn e)"

definition cc_run ::
  "env \<Rightarrow> nat list \<Rightarrow> code_changes_agent \<Rightarrow> run_args \<Rightarrow>
     nat list \<times> code_changes_agent \<times> effect list" where
  "cc_run env cache self a =
     (case cc_run_body env cache self a of
        (cache', self', tr, Inr full_response) \<Rightarrow> (cache', self', tr)
      | (cache', self', tr, Inl e) \<Rightarrow> (cache', self', tr @ [EvYield (error_event e)]))"

section \<open>CustomAgent\<close>

text \<open>
  The class calls \<^verbatim>\<open>self._get_system_prompt()\<close> and defines no such method:
  \<open>ca_has_get_system_prompt\<close> says whether the instance has one all the same (from a
  subclass, or set from outside); the constructor leaves it without.
\<close>

record custom_agent =
  ca_agent_id :: string
  ca_user_id :: string
  ca_llm_cached :: "model_handle option"
  ca_has_get_system_prompt :: bool
  ca_chain :: "chain option"

definition ca_init :: "string \<Rightarrow> string \<Rightarrow> custom_agent" where
  "ca_init agent_id uid =
     \<lparr>ca_agent_id = agent_id, ca_user_id = uid, ca_llm_cached = None,
      ca_has_get_system_prompt = False, ca_chain = None\<rparr>"

definition ca_get_llm ::
  "env \<Rightarrow> custom_agent \<Rightarrow> custom_agent \<times> effect list \<times> (exn + model_handle)" where
  "ca_get_llm env self =
     (case ca_llm_cached self of
        Some llm \<Rightarrow> (self, [], Inr llm)
      | None \<Rightarrow>
          (case get_small_llm env of
             Inl e \<Rightarrow> (self, [EvGetSmallLlm], Inl e)
           | Inr llm \<Rightarrow> (self\<lparr>ca_llm_cached := Some llm\<rparr>, [EvGetSmallLlm], Inr llm)))"

definition system_prompt_not_found :: "custom_agent \<Rightarrow> exn" where
  "system_prompt_not_found self =
     Exn ValueError (''System prompt not found for agent '' @ ca_agent_id self)"

definition ca_create_chain ::
  "env \<Rightarrow> custom_agent \<Rightarrow> custom_agent \<times> effect list \<times> (exn + chain)" where
  "ca_create_chain env self =
     (if \<not> ca_has_get_system_prompt self then
        (self, [], Inl (no_attribute ''CustomAgent'' ''_get_system_prompt''))
      else
        (case get_system_prompt env of
           Inl e \<Rightarrow> (self, [EvGetSystemPrompt], Inl e)
         | Inr None \<Rightarrow> (self, [EvGetSystemPrompt], Inl (system_prompt_not_found self))
         | Inr (Some system_prompt) \<Rightarrow>
             if system_prompt = [] then
               (self, [EvGetSystemPrompt], Inl (system_prompt_not_found self))
             else
               (case ca_get_llm env self of
                  (self', tr, Inl e) \<Rightarrow> (self', EvGetSystemPrompt # tr, Inl e)
                | (self', tr, Inr llm) \<Rightarrow>
                    (self', EvGetSystemPrompt # tr, Inr (Chain system_prompt None llm)))))"

definition ca_ensure_chain ::
  "env \<Rightarrow> custom_agent \<Rightarrow> custom_agent \<times> effect list \<times> (exn + chain)" where
  "ca_ensure_chain env self =
     (case ca_chain self of
        Some ch \<Rightarrow> (self, [], Inr ch)
      | None \<Rightarrow>
          (case ca_create_chain env self of
             (self', tr, Inl e) \<Rightarrow> (self', tr, Inl e)
           | (self', tr, Inr ch) \<Rightarrow> (self'\<lparr>ca_chain := Some ch\<rparr>, tr, Inr ch)))"

fun json_dumps :: "agent_result \<Rightarrow> exn + string" where
  "json_dumps (Serializable s) = Inr s"
| "json_dumps (Unserializable ty) =
     Inl (Exn TypeError (''Object of type '' @ ty @ '' is not JSON serializable''))"

definition ca_run_body ::
  "env \<Rightarrow> custom_agent \<Rightarrow> run_args \<Rightarrow> custom_agent \<times> effect list \<times> (exn + string)" where
  "ca_run_body env self a =
     (case ca_ensure_chain env self of
        (self', tr, Inl e) \<Rightarrow> (self', tr, Inl e)
      | (self', tr, Inr ch) \<Rightarrow>
          (case
             then_do ([EvGetSessionHistory (user_id a) (conversation_id a)],
                      get_session_history env (user_id a) (conversation_id a)) (\<lambda>history.
             then_do ([EvRunAgent (ca_agent_id self') (query a) (conversation_id a) (user_id a)
                         (node_ids a)],
                      run_agent env (ca_agent_id self') (query a) (conversation_id a)
                        (user_id a) (node_ids a)) (\<lambda>custom_agent_result.
             then_do ([], json_dumps custom_agent_result) (\<lambda>dumped.
               stream_and_flush env (conversation_id a) None [] ch
                 (ChainInputs (validated_history history)
                    [Message System (''Custom Agent result: '' @ dumped)] (query a)))))
           of (tr', r) \<Rightarrow> (self', tr @ tr', r)))"

definition ca_run :: "env \<Rightarrow> custom_agent \<Rightarrow> run_args \<Rightarrow> custom_agent \<times> effect list" where
  "ca_run env self a =
     (case ca_run_body env self a of
        (self', tr, Inr full_response) \<Rightarrow> (self', tr)
      | (self', tr, Inl e) \<Rightarrow> (self', tr @ [EvYield (error_event e)]))"

section \<open>Reading a trace\<close>

text \<open>The sequence a run produces, the fragments of its events, and its history writes.\<close>

definition yields :: "effect list \<Rightarrow> yielded list" where
  "yields tr = concat (map (\<lambda>ev. case ev of EvYield y \<Rightarrow> [y] | _ \<Rightarrow> []) tr)"

definition events :: "effect list \<Rightarrow> (string list \<times> string) list" where
  "events tr =
     concat (map (\<lambda>ev. case ev of EvYield (JsonEvent c m) \<Rightarrow> [(c, m)] | _ \<Rightarrow> []) tr)"

definition emitted :: "effect list \<Rightarrow> string list" where
  "emitted tr = map snd (events tr)"

definition persisted :: "effect list \<Rightarrow> string list" where
  "persisted tr =
     concat (map (\<lambda>ev. case ev of EvAddChunk conv m ty wc \<Rightarrow> [m] | _ \<Rightarrow> []) tr)"

fun is_history_write :: "effect \<Rightarrow> bool" where
  "is_history_write (EvAddChunk conv m ty wc) = True"
| "is_history_write (EvAddChunkRaised conv m ty wc) = True"
| "is_history_write (EvFlush conv ty) = True"
| "is_history_write _ = False"

definition history_writes :: "effect list \<Rightarrow> effect list" where
  "history_writes tr = filter is_history_write tr"

text \<open>The fragments of the chunks of a stream, in arrival order.\<close>

fun arrivals :: "stream \<Rightarrow> (exn + string) list" where
  "arrivals StreamEnd = []"
| "arrivals (StreamRaise e) = []"
| "arrivals (StreamChunk c rest) = chunk_text c # arrivals rest"


text \<open>Effects that can only occur before the chain is asked to stream.\<close>

fun before_stream :: "effect \<Rightarrow> bool" where
  "before_stream (EvAstream ch i) = False"
| "before_stream (EvAddChunk c m t w) = False"
| "before_stream (EvAddChunkRaised c m t w) = False"
| "before_stream (EvFlush c t) = False"
| "before_stream (EvYield y) = False"
| "before_stream _ = True"

section \<open>Example inputs\<close>

text \<open>
  A cooperative environment: every service answers, the classifier asks for the tool,
  the tool returns one citation, the model streams two chunks. The other examples change
  one answer of it.
\<close>

definition example_env :: env where
  "example_env =
     \<lparr>get_prompts_by_agent_id_and_types =
        Inr [PromptResponse SYSTEM ''sys'', PromptResponse HUMAN ''hum''],
      get_system_prompt = Inr (Some ''sys''),
      acquire = Acquired,
      get_small_llm = Inr 7,
      get_session_history =
        (\<lambda>u c. Inr [Prim (PyStr ''hi''), Msg (Message AI ''hello''), Prim (PyInt 42)]),
      classification_ainvoke = (\<lambda>llm q h. Inr AGENT_REQUIRED),
      kickoff_blast_radius_agent =
        (\<lambda>q p n u m. Inr (CrewOutput (Some (BlastRadiusResponse [''fileA.py:10'']
                                               ''3 call sites affected'')) ''raw'')),
      format_citations = (\<lambda>c. Inr c),
      run_agent = (\<lambda>i q c u n. Inr (Serializable ''{}'')),
      astream =
        (\<lambda>ch inp. StreamChunk (WithContent (Text ''ab'')) (StreamChunk (NoContent ''cd'') StreamEnd)),
      add_message_chunk = (\<lambda>k. None),
      flush_message_buffer = None\<rparr>"

definition example_args :: run_args where
  "example_args =
     \<lparr>query = ''q'', project_id = ''p'', user_id = ''u'', conversation_id = ''c'',
      node_ids = []\<rparr>"

text \<open>A constructed instance, and one on which the attribute \<^verbatim>\<open>llm\<close> has been set.\<close>

definition fresh_agent :: code_changes_agent where
  "fresh_agent = cc_init 1 2 3"

definition patched_agent :: code_changes_agent where
  "patched_agent = (cc_init 1 2 3)\<lparr>cc_llm := Some 3\<rparr>"

definition built_agent :: code_changes_agent where
  "built_agent =
     \<lparr>cc_ident = 1, cc_mini_llm = 2, cc_llm_cached = Some 7, cc_llm = Some 3,
      cc_chain = Some (Chain ''sys'' (Some ''hum'') 7)\<rparr>"

definition example_history :: "hist_entry list" where
  "example_history =
     [Msg (Message Human ''hi''), Msg (Message AI ''hello''), Msg (Message Human ''42'')]"

definition example_setup :: "effect list" where
  "example_setup =
     [EvGetPrompts, EvAcquire 30, EvGetSmallLlm, EvGetSessionHistory ''u'' ''c'',
      EvClassify 3 ''q'' [''hi'', ''hello'', ''42'']]"

definition example_trace :: "effect list" where
  "example_trace =
     example_setup @
     [EvBlastRadius ''q'' ''p'' [] ''u'' 2,
      EvFormatCitations [''fileA.py:10''],
      EvAstream (Chain ''sys'' (Some ''hum'') 7)
        (ChainInputs example_history
           [Message System ''Blast Radius Agent result: 3 call sites affected''] ''q''),
      EvAddChunk ''c'' ''ab'' AI_GENERATED (Some [''fileA.py:10'']),
      EvYield (JsonEvent [''fileA.py:10''] ''ab''),
      EvAddChunk ''c'' ''cd'' AI_GENERATED (Some [''fileA.py:10'']),
      EvYield (JsonEvent [''fileA.py:10''] ''cd''),
      EvFlush ''c'' AI_GENERATED]"

text \<open>A constructed custom agent, and one that has a \<^verbatim>\<open>_get_system_prompt\<close>.\<close>

definition fresh_custom :: custom_agent where
  "fresh_custom = ca_init ''a'' ''u''"

definition patched_custom :: custom_agent where
  "patched_custom = (ca_init ''a'' ''u'')\<lparr>ca_has_get_system_prompt := True\<rparr>"

definition built_custom :: custom_agent where
  "built_custom =
     \<lparr>ca_agent_id = ''a'', ca_user_id = ''u'', ca_llm_cached = Some 7,
      ca_has_get_system_prompt = True, ca_chain = Some (Chain ''sys'' None 7)\<rparr>"

definition example_custom_trace :: "effect list" where
  "example_custom_trace =
     [EvGetSystemPrompt, EvGetSmallLlm, EvGetSessionHistory ''u'' ''c'',
      EvRunAgent ''a'' ''q'' ''c'' ''u'' [],
      EvAstream (Chain ''sys'' None 7)
        (ChainInputs example_history [Message System ''Custom Agent result: {}''] ''q''),
      EvAddChunk ''c'' ''ab'' AI_GENERATED None, EvYield (JsonEvent [] ''ab''),
      EvAddChunk ''c'' ''cd'' AI_GENERATED None, EvYield (JsonEvent [] ''cd''),
      EvFlush ''c'' AI_GENERATED]"

text \<open>Effects of building the chain: prompts, rate limiter, provider.\<close>

fun is_setup :: "effect \<Rightarrow> bool" where
  "is_setup EvGetPrompts = True"
| "is_setup EvGetSystemPrompt = True"
| "is_setup (EvAcquire t) = True"
| "is_setup EvGetSmallLlm = True"
| "is_setup EvHandleQuotaExceeded = True"
| "is_setup _ = False"

text \<open>The cooperative environment with a classifier that does not ask for the tool.\<close>

definition no_agent_env :: env where
  "no_agent_env = example_env\<lparr>classification_ainvoke := (\<lambda>llm q h. Inr NO_AGENT_REQUIRED)\<rparr>"

definition no_agent_trace :: "effect list" where
  "no_agent_trace =
     example_setup @
     [EvFormatCitations [],
      EvAstream (Chain ''sys'' (Some ''hum'') 7) (ChainInputs example_history [] ''q''),
      EvAddChunk ''c'' ''ab'' AI_GENERATED None, EvYield (JsonEvent [] ''ab''),
      EvAddChunk ''c'' ''cd'' AI_GENERATED None, EvYield (JsonEvent [] ''cd''),
      EvFlush ''c'' AI_GENERATED]"

section \<open>Traces of the streaming loop\<close>

lemma yields_Nil [simp]: "yields [] = []"
  by (simp add: yields_def)

lemma yields_Cons [simp]:
  "yields (ev # tr) = (case ev of EvYield y \<Rightarrow> [y] | _ \<Rightarrow> []) @ yields tr"
  by (simp add: yields_def)

lemma yields_append [simp]: "yields (a @ b) = yields a @ yields b"
  by (simp add: yields_def)

lemma events_Nil [simp]: "events [] = []"
  by (simp add: events_def)

lemma events_Cons [simp]:
  "events (ev # tr) = (case ev of EvYield (JsonEvent c m) \<Rightarrow> [(c, m)] | _ \<Rightarrow> []) @ events tr"
  by (simp add: events_def)

lemma events_append [simp]: "events (a @ b) = events a @ events b"
  by (simp add: events_def)

lemma emitted_Nil [simp]: "emitted [] = []"
  by (simp add: emitted_def)

lemma emitted_append [simp]: "emitted (a @ b) = emitted a @ emitted b"
  by (simp add: emitted_def)

lemma persisted_Nil [simp]: "persisted [] = []"
  by (simp add: persisted_def)

lemma persisted_Cons [simp]:
  "persisted (ev # tr) = (case ev of EvAddChunk conv m ty wc \<Rightarrow> [m] | _ \<Rightarrow> []) @ persisted tr"
  by (simp add: persisted_def)

lemma persisted_append [simp]: "persisted (a @ b) = persisted a @ persisted b"
  by (simp add: persisted_def)

lemma history_writes_Nil [simp]: "history_writes [] = []"
  by (simp add: history_writes_def)

lemma history_writes_Cons [simp]:
  "history_writes (ev # tr) = (if is_history_write ev then ev # history_writes tr else history_writes tr)"
  by (simp add: history_writes_def)

lemma history_writes_append [simp]: "history_writes (a @ b) = history_writes a @ history_writes b"
  by (simp add: history_writes_def)

lemma stream_chunks_events:
  "stream_chunks env conv wc ec k full st = (tr, r) \<Longrightarrow> events tr = map (Pair ec) (persisted tr)"
proof (induction st arbitrary: k full tr r)
  case (StreamChunk c rest)
  then show ?case
    by (auto split: sum.splits option.splits prod.splits)
qed auto

lemma stream_chunks_yields:
  "stream_chunks env conv wc ec k full st = (tr, r) \<Longrightarrow> yields tr = map (JsonEvent ec) (persisted tr)"
proof (induction st arbitrary: k full tr r)
  case (StreamChunk c rest)
  then show ?case
    by (auto split: sum.splits option.splits prod.splits)
qed auto

lemma stream_chunks_full:
  "stream_chunks env conv wc ec k full st = (tr, Inr full') \<Longrightarrow> full' = full @ concat (persisted tr)"
proof (induction st arbitrary: k full tr)
  case (StreamChunk c rest)
  then show ?case
    by (fastforce split: sum.splits option.splits prod.splits)
qed auto

lemma stream_chunks_arrivals:
  "stream_chunks env conv wc ec k full st = (tr, r) \<Longrightarrow>
     prefix (map Inr (persisted tr)) (arrivals st)"
proof (induction st arbitrary: k full tr r)
  case (StreamChunk c rest)
  then show ?case
    by (auto split: sum.splits option.splits prod.splits)
qed auto

lemma stream_chunks_arrivals_all:
  "stream_chunks env conv wc ec k full st = (tr, Inr full') \<Longrightarrow>
     map Inr (persisted tr) = arrivals st"
proof (induction st arbitrary: k full tr)
  case (StreamChunk c rest)
  then show ?case
    by (fastforce split: sum.splits option.splits prod.splits)
qed auto

lemma stream_chunks_write_first:
  "stream_chunks env conv wc ec k full st = (tr, r) \<Longrightarrow>
     prefix (emitted (take n tr)) (persisted (take n tr))"
proof (induction st arbitrary: k full tr r n)
  case (StreamChunk c rest)
  show ?case
  proof (cases "chunk_text c")
    case (Inl e)
    with StreamChunk.prems show ?thesis by simp
  next
    case (Inr fragment)
    show ?thesis
    proof (cases "add_message_chunk env k")
      case (Some e)
      with Inr StreamChunk.prems show ?thesis
        by (cases n) (auto simp: emitted_def)
    next
      case None
      obtain tr' r' where rest:
        "stream_chunks env conv wc ec (Suc k) (full @ fragment) rest = (tr', r')"
        by (cases "stream_chunks env conv wc ec (Suc k) (full @ fragment) rest")
      with None Inr StreamChunk.prems have tr:
        "tr = EvAddChunk conv fragment AI_GENERATED wc # EvYield (JsonEvent ec fragment) # tr'"
        by simp
      show ?thesis
      proof (cases n)
        case 0
        then show ?thesis by simp
      next
        case (Suc m)
        show ?thesis
        proof (cases m)
          case 0
          with Suc tr show ?thesis by (simp add: emitted_def)
        next
          case (Suc j)
          from StreamChunk.IH [OF rest, of j] \<open>n = Suc m\<close> Suc tr show ?thesis
            by (simp add: emitted_def)
        qed
      qed
    qed
  qed
qed auto


lemma before_stream_quiet:
  "list_all before_stream tr \<Longrightarrow>
     yields tr = [] \<and> events tr = [] \<and> persisted tr = [] \<and> history_writes tr = []"
proof (induction tr)
  case (Cons ev tr)
  then show ?case by (cases ev) auto
qed simp

lemma before_stream_take: "list_all before_stream tr \<Longrightarrow> list_all before_stream (take n tr)"
  by (auto simp: list_all_iff dest: in_set_takeD)

lemma stream_chunks_after:
  "stream_chunks env conv wc ec k full st = (tr, r) \<Longrightarrow> ev \<in> set tr \<Longrightarrow> \<not> before_stream ev"
proof (induction st arbitrary: k full tr r)
  case (StreamChunk c rest)
  then show ?case
    by (auto split: sum.splits option.splits prod.splits)
qed auto

lemma stream_chunks_writes:
  "stream_chunks env conv wc ec k full st = (tr, r) \<Longrightarrow> ev \<in> set tr \<Longrightarrow>
     (\<exists>m. ev = EvAddChunk conv m AI_GENERATED wc \<or> ev = EvAddChunkRaised conv m AI_GENERATED wc
        \<or> ev = EvYield (JsonEvent ec m))"
proof (induction st arbitrary: k full tr r)
  case (StreamChunk c rest)
  then show ?case
    by (auto split: sum.splits option.splits prod.splits)
qed auto

text \<open>stream and flush\<close>

lemma stream_and_flush_shape:
  assumes "stream_and_flush env conv wc ec ch inputs = (tr, r)"
  obtains loop lr where
    "stream_chunks env conv wc ec 0 [] (astream env ch inputs) = (loop, lr)"
    "(\<exists>e. lr = Inl e \<and> r = Inl e \<and> tr = EvAstream ch inputs # loop) \<or>
     (\<exists>full. lr = Inr full \<and> tr = EvAstream ch inputs # loop @ [EvFlush conv AI_GENERATED] \<and>
        r = (case flush_message_buffer env of Some e \<Rightarrow> Inl e | None \<Rightarrow> Inr full))"
proof -
  obtain loop lr where l: "stream_chunks env conv wc ec 0 [] (astream env ch inputs) = (loop, lr)"
    by (cases "stream_chunks env conv wc ec 0 [] (astream env ch inputs)")
  with assms have "(\<exists>e. lr = Inl e \<and> r = Inl e \<and> tr = EvAstream ch inputs # loop) \<or>
     (\<exists>full. lr = Inr full \<and> tr = EvAstream ch inputs # loop @ [EvFlush conv AI_GENERATED] \<and>
        r = (case flush_message_buffer env of Some e \<Rightarrow> Inl e | None \<Rightarrow> Inr full))"
    by (cases lr) (auto simp: stream_and_flush_def then_do_def)
  with l that show thesis by blast
qed

lemma stream_and_flush_events:
  assumes "stream_and_flush env conv wc ec ch inputs = (tr, r)"
  shows "events tr = map (Pair ec) (persisted tr)" and "yields tr = map (JsonEvent ec) (persisted tr)"
  using assms
  by (auto elim!: stream_and_flush_shape dest: stream_chunks_events stream_chunks_yields)

lemma stream_and_flush_full:
  assumes "stream_and_flush env conv wc ec ch inputs = (tr, Inr full)"
  shows "full = concat (persisted tr)"
    and "map Inr (persisted tr) = arrivals (astream env ch inputs)"
    and "\<exists>tr'. tr = tr' @ [EvFlush conv AI_GENERATED]"
  using assms
  by (auto elim!: stream_and_flush_shape dest: stream_chunks_full stream_chunks_arrivals_all
      split: option.splits)

lemma stream_and_flush_arrivals:
  assumes "stream_and_flush env conv wc ec ch inputs = (tr, r)"
  shows "prefix (map Inr (persisted tr)) (arrivals (astream env ch inputs))"
  using assms
  by (auto elim!: stream_and_flush_shape dest: stream_chunks_arrivals)

lemma stream_and_flush_after:
  assumes "stream_and_flush env conv wc ec ch inputs = (tr, r)" and "ev \<in> set tr"
  shows "\<not> before_stream ev"
  using assms
  by (auto elim!: stream_and_flush_shape dest: stream_chunks_after)

lemma stream_and_flush_astream:
  assumes "stream_and_flush env conv wc ec ch inputs = (tr, r)" and "EvAstream ch' i' \<in> set tr"
  shows "ch' = ch \<and> i' = inputs"
  using assms
  by (auto elim!: stream_and_flush_shape dest: stream_chunks_writes)

lemma stream_and_flush_write_first:
  assumes "stream_and_flush env conv wc ec ch inputs = (tr, r)"
  shows "prefix (emitted (take n tr)) (persisted (take n tr))"
proof -
  from assms obtain loop lr where
    l: "stream_chunks env conv wc ec 0 [] (astream env ch inputs) = (loop, lr)" and
    tr: "tr = EvAstream ch inputs # loop \<or> tr = EvAstream ch inputs # loop @ [EvFlush conv AI_GENERATED]"
    by (auto elim!: stream_and_flush_shape)
  have loop: "prefix (emitted (take m loop)) (persisted (take m loop))" for m
    using l by (rule stream_chunks_write_first)
  show ?thesis
  proof (cases n)
    case 0
    then show ?thesis by simp
  next
    case (Suc m)
    from tr show ?thesis
    proof
      assume "tr = EvAstream ch inputs # loop"
      with Suc loop [of m] show ?thesis by (simp add: emitted_def)
    next
      assume "tr = EvAstream ch inputs # loop @ [EvFlush conv AI_GENERATED]"
      with Suc loop [of m] loop [of "length loop"] show ?thesis
        by (cases "m \<le> length loop") (auto simp: emitted_def not_le)
    qed
  qed
qed

section \<open>Traces of the set-up steps\<close>

lemma cc_get_llm_try_effects:
  "cc_get_llm_try env self = (self', tr, r) \<Longrightarrow>
     (tr = [EvAcquire 30] \<or> tr = [EvAcquire 30, EvGetSmallLlm]) \<and> cc_llm self' = cc_llm self
     \<and> cc_mini_llm self' = cc_mini_llm self \<and> cc_chain self' = cc_chain self \<and> cc_ident self' = cc_ident self"
  by (auto simp: cc_get_llm_try_def split: acquire_outcome.splits option.splits sum.splits)

lemma cc_get_llm_effects:
  assumes "cc_get_llm env self = (self', tr, r)"
  shows "set tr \<subseteq> {EvAcquire 30, EvGetSmallLlm, EvHandleQuotaExceeded}"
    and "cc_llm self' = cc_llm self" and "cc_mini_llm self' = cc_mini_llm self"
    and "cc_chain self' = cc_chain self" and "cc_ident self' = cc_ident self"
proof -
  obtain s1 t1 r1 where t: "cc_get_llm_try env self = (s1, t1, r1)"
    by (cases "cc_get_llm_try env self")
  from cc_get_llm_try_effects [OF t] assms t
  show "set tr \<subseteq> {EvAcquire 30, EvGetSmallLlm, EvHandleQuotaExceeded}"
    and "cc_llm self' = cc_llm self" and "cc_mini_llm self' = cc_mini_llm self"
    and "cc_chain self' = cc_chain self" and "cc_ident self' = cc_ident self"
    by (auto simp: cc_get_llm_def split: sum.splits if_splits)
qed

lemma cc_get_prompts_effects:
  "cc_get_prompts env cache self = (cache', tr, r) \<Longrightarrow> set tr \<subseteq> {EvGetPrompts}"
  by (auto simp: cc_get_prompts_def split: prod.splits bool.splits if_splits)

lemma cc_create_chain_effects:
  assumes "cc_create_chain env cache self = (cache', self', tr, r)"
  shows "set tr \<subseteq> {EvGetPrompts, EvAcquire 30, EvGetSmallLlm, EvHandleQuotaExceeded}"
    and "cc_llm self' = cc_llm self" and "cc_mini_llm self' = cc_mini_llm self"
    and "cc_chain self' = cc_chain self" and "cc_ident self' = cc_ident self"
proof -
  obtain c1 t1 r1 where p: "cc_get_prompts env cache self = (c1, t1, r1)"
    by (cases "cc_get_prompts env cache self")
  obtain s2 t2 r2 where g: "cc_get_llm env self = (s2, t2, r2)"
    by (cases "cc_get_llm env self")
  note e1 = cc_get_prompts_effects [OF p] and e2 = cc_get_llm_effects [OF g]
  from assms p g e1 e2
  show "set tr \<subseteq> {EvGetPrompts, EvAcquire 30, EvGetSmallLlm, EvHandleQuotaExceeded}"
    by (auto simp: cc_create_chain_def split: sum.splits option.splits)
  from assms p g e2
  show "cc_llm self' = cc_llm self" and "cc_mini_llm self' = cc_mini_llm self"
    and "cc_chain self' = cc_chain self" and "cc_ident self' = cc_ident self"
    by (auto simp: cc_create_chain_def split: sum.splits option.splits)
qed

lemma cc_ensure_chain_effects:
  assumes "cc_ensure_chain env cache self = (cache', self', tr, r)"
  shows "set tr \<subseteq> {EvGetPrompts, EvAcquire 30, EvGetSmallLlm, EvHandleQuotaExceeded}"
    and "cc_llm self' = cc_llm self" and "cc_mini_llm self' = cc_mini_llm self"
    and "cc_ident self' = cc_ident self"
proof -
  obtain c1 s1 t1 r1 where c: "cc_create_chain env cache self = (c1, s1, t1, r1)"
    by (cases "cc_create_chain env cache self") auto
  note e = cc_create_chain_effects [OF c]
  from assms c e(1)
  show "set tr \<subseteq> {EvGetPrompts, EvAcquire 30, EvGetSmallLlm, EvHandleQuotaExceeded}"
    by (auto simp: cc_ensure_chain_def split: sum.splits option.splits)
  from assms c e(2-)
  show "cc_llm self' = cc_llm self" and "cc_mini_llm self' = cc_mini_llm self"
    and "cc_ident self' = cc_ident self"
    by (auto simp: cc_ensure_chain_def split: sum.splits option.splits)
qed

lemma setup_before_stream:
  "set tr \<subseteq> {EvGetPrompts, EvAcquire 30, EvGetSmallLlm, EvHandleQuotaExceeded} \<Longrightarrow>
     list_all before_stream tr"
  by (auto simp: list_all_iff)

lemma contents_validated: "\<exists>cs. contents (map validate_entry h) = Inr cs"
proof (induction h)
  case (Cons x h)
  then show ?case by (cases x) auto
qed simp

lemma contents_last5_validated: "\<exists>cs. contents (last5 (validated_history h)) = Inr cs"
proof -
  have "last5 (validated_history h) = map validate_entry (drop (length h - 5) h)"
    by (simp add: last5_def validated_history_def drop_map)
  then show ?thesis by (simp add: contents_validated)
qed

text \<open>What cc_prepare did when it returned.\<close>

lemma cc_prepare_result:
  assumes "cc_prepare env self a = (tr, Inr p)"
  shows "list_all before_stream tr"
    and "\<exists>llm recent. EvClassify llm (query a) recent \<in> set tr \<and>
           classification_ainvoke env llm (query a) recent = Inr (p_classification p) \<and>
           (\<forall>l q rc. EvClassify l q rc \<in> set tr \<longrightarrow> l = llm \<and> q = query a \<and> rc = recent)"
    and "p_classification p = AGENT_REQUIRED \<Longrightarrow>
           \<exists>result. kickoff_blast_radius_agent env (query a) (project_id a) (node_ids a)
                      (user_id a) (cc_mini_llm self) = Inr result \<and>
             format_citations env (case pydantic result of Some b \<Rightarrow> citations b | None \<Rightarrow> [])
               = Inr (p_citations p)"
  using assms
  by (auto simp: cc_prepare_def then_do_def cc_classify_query_def cc_tool_step_def
      split: sum.splits option.splits prod.splits if_splits)

lemma cc_prepare_failed:
  assumes "cc_prepare env self a = (tr, Inl e)"
  shows "list_all before_stream tr"
  using assms
  by (auto simp: cc_prepare_def then_do_def cc_classify_query_def cc_tool_step_def
      split: sum.splits option.splits prod.splits if_splits)

section \<open>The shape of a run\<close>

lemma cc_run_body_cases:
  assumes "cc_run_body env cache self a = (cache', self', tr, r)"
  obtains (early) e where "r = Inl e" and "list_all before_stream tr"
  | (streamed) ens prep p ch str where "tr = ens @ prep @ str"
      and "set ens \<subseteq> {EvGetPrompts, EvAcquire 30, EvGetSmallLlm, EvHandleQuotaExceeded}"
      and "cc_prepare env self' a = (prep, Inr p)"
      and "stream_and_flush env (conversation_id a)
             (if p_classification p = AGENT_REQUIRED then Some (p_citations p) else None)
             (if p_classification p = AGENT_REQUIRED then p_citations p else [])
             ch (p_inputs p) = (str, r)"
proof -
  obtain c1 s1 ens r1 where en: "cc_ensure_chain env cache self = (c1, s1, ens, r1)"
    by (cases "cc_ensure_chain env cache self") auto
  note ens = cc_ensure_chain_effects(1) [OF en]
  show thesis
  proof (cases r1)
    case (Inl e)
    with assms en have "r = Inl e" and "tr = ens"
      by (auto simp: cc_run_body_def)
    with ens early show thesis
      by (simp add: setup_before_stream)
  next
    case (Inr ch)
    with assms en have s1: "s1 = self'" by (auto simp: cc_run_body_def split: prod.splits)
    obtain prep r2 where pr: "cc_prepare env self' a = (prep, r2)"
      by (cases "cc_prepare env self' a")
    show thesis
    proof (cases r2)
      case (Inl e)
      with assms en Inr pr s1 have "r = Inl e" and "tr = ens @ prep"
        by (auto simp: cc_run_body_def then_do_def)
      moreover from pr Inl have "list_all before_stream prep"
        by (auto dest: cc_prepare_failed)
      ultimately show thesis using ens early
        by (simp add: setup_before_stream)
    next
      case (Inr p)
      note p = this
      obtain str r3 where st: "stream_and_flush env (conversation_id a)
             (if p_classification p = AGENT_REQUIRED then Some (p_citations p) else None)
             (if p_classification p = AGENT_REQUIRED then p_citations p else [])
             ch (p_inputs p) = (str, r3)"
        by (cases "stream_and_flush env (conversation_id a)
             (if p_classification p = AGENT_REQUIRED then Some (p_citations p) else None)
             (if p_classification p = AGENT_REQUIRED then p_citations p else [])
             ch (p_inputs p)")
      with assms en \<open>r1 = Inr ch\<close> pr p s1 have "tr = ens @ prep @ str" and "r3 = r"
        by (auto simp: cc_run_body_def then_do_def)
      with streamed [of ens prep str p ch] ens pr p st show thesis
        by simp
    qed
  qed
qed

lemma cc_run_body_frame:
  assumes "cc_run_body env cache self a = (cache', self', tr, r)"
  shows "cc_llm self' = cc_llm self" and "cc_mini_llm self' = cc_mini_llm self"
proof -
  obtain c1 s1 ens r1 where en: "cc_ensure_chain env cache self = (c1, s1, ens, r1)"
    by (cases "cc_ensure_chain env cache self") auto
  from cc_ensure_chain_effects(2,3) [OF en] assms en
  show "cc_llm self' = cc_llm self" and "cc_mini_llm self' = cc_mini_llm self"
    by (auto simp: cc_run_body_def split: sum.splits prod.splits)
qed

text \<open>CustomAgent\<close>

lemma ca_get_llm_effects:
  "ca_get_llm env self = (self', tr, r) \<Longrightarrow> set tr \<subseteq> {EvGetSmallLlm} \<and> ca_agent_id self' = ca_agent_id self"
  by (auto simp: ca_get_llm_def split: option.splits sum.splits)

lemma ca_create_chain_effects:
  assumes "ca_create_chain env self = (self', tr, r)"
  shows "set tr \<subseteq> {EvGetSystemPrompt, EvGetSmallLlm}" and "ca_agent_id self' = ca_agent_id self"
proof -
  obtain s1 t1 r1 where g: "ca_get_llm env self = (s1, t1, r1)"
    by (cases "ca_get_llm env self")
  from ca_get_llm_effects [OF g] assms g
  show "set tr \<subseteq> {EvGetSystemPrompt, EvGetSmallLlm}" and "ca_agent_id self' = ca_agent_id self"
    by (auto simp: ca_create_chain_def split: sum.splits option.splits if_splits)
qed

lemma ca_ensure_chain_effects:
  assumes "ca_ensure_chain env self = (self', tr, r)"
  shows "set tr \<subseteq> {EvGetSystemPrompt, EvGetSmallLlm}" and "ca_agent_id self' = ca_agent_id self"
proof -
  obtain s1 t1 r1 where c: "ca_create_chain env self = (s1, t1, r1)"
    by (cases "ca_create_chain env self")
  from ca_create_chain_effects [OF c] assms c
  show "set tr \<subseteq> {EvGetSystemPrompt, EvGetSmallLlm}" and "ca_agent_id self' = ca_agent_id self"
    by (auto simp: ca_ensure_chain_def split: sum.splits option.splits)
qed

lemma ca_setup_before_stream:
  "set tr \<subseteq> {EvGetSystemPrompt, EvGetSmallLlm} \<Longrightarrow> list_all before_stream tr"
  by (auto simp: list_all_iff)

lemma ca_run_body_cases:
  assumes "ca_run_body env self a = (self', tr, r)"
  obtains (early) e where "r = Inl e" and "list_all before_stream tr"
      and "\<And>l q rc. EvClassify l q rc \<notin> set tr"
  | (streamed) pre ch inputs str where "tr = pre @ str"
      and "list_all before_stream pre" and "\<And>l q rc. EvClassify l q rc \<notin> set pre"
      and "EvRunAgent (ca_agent_id self) (query a) (conversation_id a) (user_id a) (node_ids a) \<in> set pre"
      and "stream_and_flush env (conversation_id a) None [] ch inputs = (str, r)"
proof -
  obtain s1 ens r1 where en: "ca_ensure_chain env self = (s1, ens, r1)"
    by (cases "ca_ensure_chain env self")
  note ens = ca_ensure_chain_effects [OF en]
  from ens(1) have ens_cls: "EvClassify l q rc \<notin> set ens" for l q rc by auto
  show thesis
  proof (cases r1)
    case (Inl e)
    with assms en have "r = Inl e" and "tr = ens"
      by (auto simp: ca_run_body_def)
    with ens ens_cls early show thesis
      by (simp add: ca_setup_before_stream)
  next
    case (Inr ch)
    with assms en have s1: "s1 = self'" by (auto simp: ca_run_body_def split: prod.splits)
    let ?hist = "get_session_history env (user_id a) (conversation_id a)"
    let ?H = "EvGetSessionHistory (user_id a) (conversation_id a)"
    let ?R = "EvRunAgent (ca_agent_id self) (query a) (conversation_id a) (user_id a) (node_ids a)"
    let ?res = "run_agent env (ca_agent_id self) (query a) (conversation_id a) (user_id a) (node_ids a)"
    from ens(2) s1 have aid: "ca_agent_id self' = ca_agent_id self" by simp
    consider (h) e where "?hist = Inl e"
      | (r) h e where "?hist = Inr h" "?res = Inl e"
      | (d) h res e where "?hist = Inr h" "?res = Inr res" "json_dumps res = Inl e"
      | (s) h res dumped where "?hist = Inr h" "?res = Inr res" "json_dumps res = Inr dumped"
      by (cases ?hist; cases ?res) (auto, metis sum.exhaust_sel)
    then show thesis
    proof cases
      case h
      with assms en Inr s1 have "r = Inl e" and "tr = ens @ [?H]"
        by (auto simp: ca_run_body_def then_do_def)
      with ens ens_cls early show thesis
        by (auto simp: ca_setup_before_stream)
    next
      case r
      with assms en Inr s1 aid have "r = Inl e" and "tr = ens @ [?H, ?R]"
        by (auto simp: ca_run_body_def then_do_def)
      with ens ens_cls early show thesis
        by (auto simp: ca_setup_before_stream)
    next
      case d
      with assms en Inr s1 aid have "r = Inl e" and "tr = ens @ [?H, ?R]"
        by (auto simp: ca_run_body_def then_do_def)
      with ens ens_cls early show thesis
        by (auto simp: ca_setup_before_stream)
    next
      case s
      let ?inputs = "ChainInputs (validated_history h)
                    [Message System (''Custom Agent result: '' @ dumped)] (query a)"
      obtain str r3 where st:
        "stream_and_flush env (conversation_id a) None [] ch ?inputs = (str, r3)"
        by (cases "stream_and_flush env (conversation_id a) None [] ch ?inputs")
      with s assms en Inr s1 aid have "tr = (ens @ [?H, ?R]) @ str" and "r3 = r"
        by (auto simp: ca_run_body_def then_do_def)
      with streamed [of "ens @ [?H, ?R]" str ch ?inputs] st ens ens_cls show thesis
        by (auto simp: ca_setup_before_stream)
    qed
  qed
qed


section \<open>Evaluating the examples\<close>

lemmas cc_defs = cc_run_def cc_run_body_def cc_ensure_chain_def cc_create_chain_def cc_get_prompts_def
  lru_cache_call_def cc_init_def prompt_dict_def cc_get_llm_def cc_get_llm_try_def then_do_def
  cc_prepare_def cc_classify_query_def validated_history_def last5_def cc_tool_step_def
  stream_and_flush_def error_event_def no_attribute_def quoted_def service_overloaded_def
  prompts_not_found_def

lemmas ca_defs = ca_run_def ca_run_body_def ca_ensure_chain_def ca_create_chain_def ca_get_llm_def
  ca_init_def then_do_def validated_history_def stream_and_flush_def error_event_def
  no_attribute_def quoted_def system_prompt_not_found_def

lemmas example_defs = example_env_def example_args_def fresh_agent_def patched_agent_def
  built_agent_def example_history_def example_setup_def example_trace_def fresh_custom_def
  patched_custom_def built_custom_def example_custom_trace_def

lemma str_int_42: "str_int 42 = ''42''"
  by (simp add: str_int_def str_nat.simps digit_chars_def)

lemma example_body:
  "cc_run_body example_env [] patched_agent example_args =
     ([1], built_agent, example_trace, Inr ''abcd'')"
  by (simp add: cc_defs example_defs str_int_42)

lemma example_custom_body:
  "ca_run_body example_env patched_custom example_args =
     (built_custom, example_custom_trace, Inr ''abcd'')"
  by (simp add: ca_defs example_defs str_int_42)

lemma example_run:
  "cc_run example_env [] patched_agent example_args = ([1], built_agent, example_trace)"
  by (simp add: cc_run_def example_body)

lemma no_agent_run:
  "cc_run no_agent_env [] patched_agent example_args = ([1], built_agent, no_agent_trace)"
  by (simp add: cc_defs example_defs str_int_42 no_agent_env_def no_agent_trace_def)

section \<open>What a run yields\<close>

lemma body_yields_cc:
  assumes "cc_run_body env cache self a = (cache', self', tr, r)"
  shows "yields tr = map (\<lambda>(c, m). JsonEvent c m) (events tr)"
  using assms
proof (cases rule: cc_run_body_cases)
  case (early e)
  then show ?thesis by (simp add: before_stream_quiet)
next
  case (streamed ens prep p ch str)
  note q = before_stream_quiet [OF setup_before_stream [OF streamed(2)]]
    before_stream_quiet [OF cc_prepare_result(1) [OF streamed(3)]]
  from q streamed(1) stream_and_flush_events [OF streamed(4)] show ?thesis
    by (simp add: comp_def)
qed

lemma body_yields_ca:
  assumes "ca_run_body env self a = (self', tr, r)"
  shows "yields tr = map (\<lambda>(c, m). JsonEvent c m) (events tr)"
  using assms
proof (cases rule: ca_run_body_cases)
  case (early e)
  then show ?thesis by (simp add: before_stream_quiet)
next
  case (streamed pre ch inputs str)
  from before_stream_quiet [OF streamed(2)] streamed(1) stream_and_flush_events [OF streamed(5)]
  show ?thesis
    by (simp add: comp_def)
qed

lemma cc_prepare_effects:
  assumes "cc_prepare env self a = (tr, r)" and "ev \<in> set tr"
  shows "before_stream ev \<and> \<not> is_setup ev"
  using assms
  by (auto simp: cc_prepare_def then_do_def cc_classify_query_def cc_tool_step_def
      split: sum.splits option.splits prod.splits if_splits)

lemma not_before_not_setup: "\<not> before_stream ev \<Longrightarrow> \<not> is_setup ev"
  by (cases ev) auto

section \<open>The claims\<close>

text \<open>
  C1. A run that completes without error leaves \<^verbatim>\<open>full_response\<close> equal to the
  concatenation, in order, of the \<^verbatim>\<open>message\<close> fragments of the events it yielded. These
  are also exactly the fragments handed to \<^verbatim>\<open>add_message_chunk\<close>, in the same order, and
  the last thing the run does is the flush that commits them. Both agents.
\<close>

theorem concatenation_invariant:
  "(cc_run_body env cache self a = (cache', self', tr, Inr full_response) \<longrightarrow>
      cc_run env cache self a = (cache', self', tr) \<and>
      full_response = concat (emitted tr) \<and> persisted tr = emitted tr \<and>
      (\<exists>tr0. tr = tr0 @ [EvFlush (conversation_id a) AI_GENERATED])) \<and>
   (ca_run_body env cself a = (cself', ctr, Inr cfull) \<longrightarrow>
      ca_run env cself a = (cself', ctr) \<and>
      cfull = concat (emitted ctr) \<and> persisted ctr = emitted ctr \<and>
      (\<exists>tr0. ctr = tr0 @ [EvFlush (conversation_id a) AI_GENERATED]))"
proof (rule conjI; rule impI)
  assume body: "cc_run_body env cache self a = (cache', self', tr, Inr full_response)"
  then have run: "cc_run env cache self a = (cache', self', tr)"
    by (simp add: cc_run_def)
  from body obtain ens prep p ch str wc ec where tr: "tr = ens @ prep @ str"
    and ens: "set ens \<subseteq> {EvGetPrompts, EvAcquire 30, EvGetSmallLlm, EvHandleQuotaExceeded}"
    and prep: "cc_prepare env self' a = (prep, Inr p)"
    and str: "stream_and_flush env (conversation_id a) wc ec ch (p_inputs p)
                = (str, Inr full_response)"
    by (cases rule: cc_run_body_cases) simp_all
  note q = before_stream_quiet [OF setup_before_stream [OF ens]]
    before_stream_quiet [OF cc_prepare_result(1) [OF prep]]
  note sf = stream_and_flush_full [OF str] stream_and_flush_events(1) [OF str]
  from q sf tr have "full_response = concat (emitted tr)" and "persisted tr = emitted tr"
    by (simp_all add: emitted_def comp_def)
  moreover from sf(3) tr have "\<exists>tr0. tr = tr0 @ [EvFlush (conversation_id a) AI_GENERATED]"
    by (metis append.assoc)
  ultimately show "cc_run env cache self a = (cache', self', tr) \<and>
      full_response = concat (emitted tr) \<and> persisted tr = emitted tr \<and>
      (\<exists>tr0. tr = tr0 @ [EvFlush (conversation_id a) AI_GENERATED])"
    using run by simp
next
  assume body: "ca_run_body env cself a = (cself', ctr, Inr cfull)"
  then have run: "ca_run env cself a = (cself', ctr)"
    by (simp add: ca_run_def)
  from body obtain pre ch inputs str where tr: "ctr = pre @ str"
    and pre: "list_all before_stream pre"
    and str: "stream_and_flush env (conversation_id a) None [] ch inputs = (str, Inr cfull)"
    by (cases rule: ca_run_body_cases) simp_all
  note q = before_stream_quiet [OF pre]
  note sf = stream_and_flush_full [OF str] stream_and_flush_events(1) [OF str]
  from q sf tr have "cfull = concat (emitted ctr)" and "persisted ctr = emitted ctr"
    by (simp_all add: emitted_def comp_def)
  moreover from sf(3) tr have "\<exists>tr0. ctr = tr0 @ [EvFlush (conversation_id a) AI_GENERATED]"
    by (metis append.assoc)
  ultimately show "ca_run env cself a = (cself', ctr) \<and>
      cfull = concat (emitted ctr) \<and> persisted ctr = emitted ctr \<and>
      (\<exists>tr0. ctr = tr0 @ [EvFlush (conversation_id a) AI_GENERATED])"
    using run by simp
qed

theorem concatenation_invariant_witness:
  "cc_run_body example_env [] patched_agent example_args =
     ([1], built_agent, example_trace, Inr ''abcd'') \<and>
   ''abcd'' = concat (emitted example_trace) \<and>
   persisted example_trace = [''ab'', ''cd''] \<and>
   ca_run_body example_env patched_custom example_args =
     (built_custom, example_custom_trace, Inr ''abcd'') \<and>
   ''abcd'' = concat (emitted example_custom_trace) \<and>
   persisted example_custom_trace = [''ab'', ''cd'']"
  using concatenation_invariant [of example_env "[]" patched_agent example_args "[1]" built_agent
      example_trace "''abcd''" patched_custom built_custom example_custom_trace "''abcd''"]
    example_body example_custom_body
  by (simp add: example_defs emitted_def)

text \<open>
  C2. In a run whose classification came back as \<open>NO_AGENT_REQUIRED\<close>, every event
  carries the empty citation list. In a run whose classification came back as
  \<open>AGENT_REQUIRED\<close>, every event carries one and the same list: what \<^verbatim>\<open>format_citations\<close>
  returned for the citations of the tool result (the empty list when the result is raw
  text only). The events are the JSON events; the text of the error handler has no
  citations field.
\<close>

theorem citation_gating:
  assumes "cc_run env cache self a = (cache', self', tr)"
    and "EvClassify llm q recent \<in> set tr"
  shows "(classification_ainvoke env llm q recent = Inr NO_AGENT_REQUIRED \<longrightarrow>
            (\<forall>(c, m) \<in> set (events tr). c = [])) \<and>
         (classification_ainvoke env llm q recent = Inr AGENT_REQUIRED \<longrightarrow>
            (\<forall>(c, m) \<in> set (events tr). \<exists>result.
                kickoff_blast_radius_agent env (query a) (project_id a) (node_ids a) (user_id a)
                  (cc_mini_llm self) = Inr result \<and>
                format_citations env
                  (case pydantic result of Some b \<Rightarrow> citations b | None \<Rightarrow> []) = Inr c))"
proof -
  obtain c1 s1 btr r where body: "cc_run_body env cache self a = (c1, s1, btr, r)"
    by (cases "cc_run_body env cache self a") auto
  with assms(1) have s1: "s1 = self'" and tr: "tr = btr \<or> (\<exists>e. tr = btr @ [EvYield (error_event e)])"
    by (auto simp: cc_run_def split: sum.splits)
  then have ev: "events tr = events btr"
    by (auto simp: error_event_def)
  from tr assms(2) have cls: "EvClassify llm q recent \<in> set btr"
    by auto
  from body show ?thesis
  proof (cases rule: cc_run_body_cases)
    case (early e)
    with ev show ?thesis by (simp add: before_stream_quiet)
  next
    case (streamed ens prep p ch str)
    note prep = cc_prepare_result [OF streamed(3) [unfolded s1]]
    from stream_and_flush_after [OF streamed(4), of "EvClassify llm q recent"]
    have "EvClassify llm q recent \<notin> set str"
      by auto
    with cls streamed(1,2) have "EvClassify llm q recent \<in> set prep"
      by auto
    with prep(2) have res: "classification_ainvoke env llm q recent = Inr (p_classification p)"
      by blast
    note q = before_stream_quiet [OF setup_before_stream [OF streamed(2)]]
      before_stream_quiet [OF prep(1)]
    let ?ec = "if p_classification p = AGENT_REQUIRED then p_citations p else []"
    from q streamed(1) stream_and_flush_events(1) [OF streamed(4)] ev
    have evs: "events tr = map (Pair ?ec) (persisted str)"
      by simp
    from cc_run_body_frame(2) [OF body] s1 have mini: "cc_mini_llm self' = cc_mini_llm self"
      by simp
    show ?thesis
    proof (intro conjI impI)
      assume "classification_ainvoke env llm q recent = Inr NO_AGENT_REQUIRED"
      with res evs show "\<forall>(c, m) \<in> set (events tr). c = []"
        by auto
    next
      assume "classification_ainvoke env llm q recent = Inr AGENT_REQUIRED"
      with res have ar: "p_classification p = AGENT_REQUIRED" by simp
      from prep(3) [OF ar] mini ar evs
      show "\<forall>(c, m) \<in> set (events tr). \<exists>result.
                kickoff_blast_radius_agent env (query a) (project_id a) (node_ids a) (user_id a)
                  (cc_mini_llm self) = Inr result \<and>
                format_citations env
                  (case pydantic result of Some b \<Rightarrow> citations b | None \<Rightarrow> []) = Inr c"
        by auto
    qed
  qed
qed

theorem citation_gating_witness:
  "cc_run example_env [] patched_agent example_args = ([1], built_agent, example_trace) \<and>
   EvClassify 3 ''q'' [''hi'', ''hello'', ''42''] \<in> set example_trace \<and>
   classification_ainvoke example_env 3 ''q'' [''hi'', ''hello'', ''42''] = Inr AGENT_REQUIRED \<and>
   events example_trace = [([''fileA.py:10''], ''ab''), ([''fileA.py:10''], ''cd'')] \<and>
   cc_run no_agent_env [] patched_agent example_args = ([1], built_agent, no_agent_trace) \<and>
   EvClassify 3 ''q'' [''hi'', ''hello'', ''42''] \<in> set no_agent_trace \<and>
   classification_ainvoke no_agent_env 3 ''q'' [''hi'', ''hello'', ''42''] = Inr NO_AGENT_REQUIRED \<and>
   events no_agent_trace = [([], ''ab''), ([], ''cd'')]"
  using citation_gating [OF no_agent_run, of 3 "''q''" "[''hi'', ''hello'', ''42'']"]
    citation_gating [OF example_run, of 3 "''q''" "[''hi'', ''hello'', ''42'']"]
    example_run no_agent_run
  by (simp add: example_defs no_agent_env_def no_agent_trace_def)

text \<open>
  C3. When an exception leaves the \<^verbatim>\<open>try\<close> block of \<^verbatim>\<open>run\<close>, whichever step raised it,
  the run does not raise: it yields the JSON events produced so far and then exactly one
  more item, the text \<^verbatim>\<open>An error occurred: \<close> followed by \<^verbatim>\<open>str(e)\<close>, and nothing after
  it. Both agents.
\<close>

theorem failure_is_terminal_event:
  "(cc_run_body env cache self a = (cache', self', tr, Inl e) \<longrightarrow>
      cc_run env cache self a =
        (cache', self', tr @ [EvYield (ErrorText (''An error occurred: '' @ str_exn e))]) \<and>
      yields (tr @ [EvYield (ErrorText (''An error occurred: '' @ str_exn e))]) =
        map (\<lambda>(c, m). JsonEvent c m) (events tr) @
          [ErrorText (''An error occurred: '' @ str_exn e)]) \<and>
   (ca_run_body env cself a = (cself', ctr, Inl ce) \<longrightarrow>
      ca_run env cself a =
        (cself', ctr @ [EvYield (ErrorText (''An error occurred: '' @ str_exn ce))]) \<and>
      yields (ctr @ [EvYield (ErrorText (''An error occurred: '' @ str_exn ce))]) =
        map (\<lambda>(c, m). JsonEvent c m) (events ctr) @
          [ErrorText (''An error occurred: '' @ str_exn ce)])"
  by (simp add: cc_run_def ca_run_def error_event_def body_yields_cc body_yields_ca)

theorem failure_is_terminal_event_witness:
  "cc_run_body example_env [] fresh_agent example_args =
     ([1], fresh_agent\<lparr>cc_llm_cached := Some 7, cc_chain := Some (Chain ''sys'' (Some ''hum'') 7)\<rparr>,
      [EvGetPrompts, EvAcquire 30, EvGetSmallLlm, EvGetSessionHistory ''u'' ''c''],
      Inl (no_attribute ''CodeChangesChatAgent'' ''llm'')) \<and>
   yields (snd (snd (cc_run example_env [] fresh_agent example_args))) =
     [ErrorText (''An error occurred: '' @ str_exn (no_attribute ''CodeChangesChatAgent'' ''llm''))] \<and>
   ca_run_body example_env fresh_custom example_args =
     (fresh_custom, [], Inl (no_attribute ''CustomAgent'' ''_get_system_prompt'')) \<and>
   yields (snd (ca_run example_env fresh_custom example_args)) =
     [ErrorText (''An error occurred: '' @ str_exn (no_attribute ''CustomAgent'' ''_get_system_prompt''))]"
  using failure_is_terminal_event [of example_env "[]" fresh_agent example_args "[1]"
      "fresh_agent\<lparr>cc_llm_cached := Some 7, cc_chain := Some (Chain ''sys'' (Some ''hum'') 7)\<rparr>"
      "[EvGetPrompts, EvAcquire 30, EvGetSmallLlm, EvGetSessionHistory ''u'' ''c'']"
      "no_attribute ''CodeChangesChatAgent'' ''llm''" fresh_custom fresh_custom "[]"
      "no_attribute ''CustomAgent'' ''_get_system_prompt''"]
  by (simp add: cc_defs ca_defs example_defs str_int_42)

text \<open>
  C8. Validation of a history keeps its length and order; a primitive entry becomes a
  message of role human whose content is the string form of the primitive; a typed
  message is left as it is; so a history of typed messages is returned unchanged.
\<close>

theorem history_validation:
  "length (validated_history h) = length h \<and>
   (\<forall>i < length h.
      (\<forall>p. h ! i = Prim p \<longrightarrow> validated_history h ! i = Msg (Message Human (py_str p))) \<and>
      (\<forall>m. h ! i = Msg m \<longrightarrow> validated_history h ! i = Msg m)) \<and>
   ((\<forall>x \<in> set h. \<exists>m. x = Msg m) \<longrightarrow> validated_history h = h)"
proof -
  have "validated_history h = h" if "\<forall>x \<in> set h. \<exists>m. x = Msg m"
    unfolding validated_history_def using that by (induction h) auto
  then show ?thesis
    by (simp add: validated_history_def)
qed

theorem history_validation_witness:
  "validated_history [Prim (PyStr ''hi''), Msg (Message AI ''hello''), Prim (PyInt 42)] ! 2
     = Msg (Message Human ''42'') \<and>
   validated_history [Prim (PyStr ''hi''), Msg (Message AI ''hello''), Prim (PyInt 42)] ! 1
     = Msg (Message AI ''hello'') \<and>
   validated_history [Msg (Message AI ''hello''), Msg (Message System ''s'')]
     = [Msg (Message AI ''hello''), Msg (Message System ''s'')]"
  using history_validation [of "[Prim (PyStr ''hi''), Msg (Message AI ''hello''), Prim (PyInt 42)]"]
    history_validation [of "[Msg (Message AI ''hello''), Msg (Message System ''s'')]"]
  by (simp add: str_int_42)

end
